theory Spec2Isabelle
  imports Main
begin

text \<open>
  A model of the bot as it runs: the item store (\<open>Store\<close>), the session registry and
  the handlers of the dispatch loop (\<open>App\<close>), and the daily triggers (\<open>Scheduler\<close>).
  Every method is a function on the state it reads and writes; the clock, the environment
  and the answers of Telegram, of the calendar and of the database are arguments. The
  single-file variant of the bot in \<open>bot.go\<close>, with a \<open>main\<close> of its own and no
  target chat, is another program and is not modelled.
\<close>

section \<open>Go values: integers, strings, time\<close>

text \<open>
  \<open>int64\<close> values (chat identifiers, item identifiers) are integers of the range
  \<open>-2^63 .. 2^63 - 1\<close>; arithmetic that can leave the range wraps (\<open>wrap64\<close>).
  A Go string is its sequence of bytes, here a \<open>string\<close>; the source files are UTF-8,
  so a literal with Cyrillic letters is the UTF-8 encoding of its code points (\<open>utf8\<close>).
  An instant (\<open>time.Time\<close>) is a number of nanoseconds on one clock, a
  \<open>time.Duration\<close> a number of nanoseconds.
\<close>

type_synonym int64 = int
type_synonym time = int
type_synonym Duration = int

definition minInt64 :: int where
  "minInt64 = - (2 ^ 63)"

definition maxInt64 :: int where
  "maxInt64 = 2 ^ 63 - 1"

definition wrap64 :: "int \<Rightarrow> int64" where
  "wrap64 x = (x + 2 ^ 63) mod 2 ^ 64 - 2 ^ 63"

text \<open>\<open>t.Sub(u)\<close>: the difference, saturated at the ends of the \<open>Duration\<close> range.\<close>

definition Sub :: "time \<Rightarrow> time \<Rightarrow> Duration" where
  "Sub t u = (if t - u > maxInt64 then maxInt64
              else if t - u < minInt64 then minInt64 else t - u)"

fun utf8_enc :: "nat \<Rightarrow> string" where
  "utf8_enc c =
     (if c < 0x80 then [char_of c]
      else if c < 0x800 then [char_of (0xC0 + c div 0x40), char_of (0x80 + c mod 0x40)]
      else if c < 0x10000 then
        [char_of (0xE0 + c div 0x1000), char_of (0x80 + c div 0x40 mod 0x40),
         char_of (0x80 + c mod 0x40)]
      else
        [char_of (0xF0 + c div 0x40000), char_of (0x80 + c div 0x1000 mod 0x40),
         char_of (0x80 + c div 0x40 mod 0x40), char_of (0x80 + c mod 0x40)])"

definition utf8 :: "nat list \<Rightarrow> string" where
  "utf8 cs = concat (map utf8_enc cs)"

subsection \<open>Package \<open>strings\<close>\<close>

definition HasPrefix :: "string \<Rightarrow> string \<Rightarrow> bool" where
  "HasPrefix s p = (take (length p) s = p)"

definition TrimPrefix :: "string \<Rightarrow> string \<Rightarrow> string" where
  "TrimPrefix s p = (if HasPrefix s p then drop (length p) s else s)"

text \<open>
  \<open>strings.TrimSpace\<close> removes the leading and the trailing white space, as Unicode
  defines it: U+0009..U+000D and U+0020 (one byte in UTF-8), U+0085 and U+00A0 (two
  bytes), U+1680, U+2000..U+200A, U+2028, U+2029, U+202F, U+205F and U+3000 (three
  bytes). \<open>trim_right\<close> works on the reversed string.
\<close>

definition byte_in :: "char \<Rightarrow> nat \<Rightarrow> nat \<Rightarrow> bool" where
  "byte_in c lo hi = (lo \<le> of_char c \<and> (of_char c :: nat) \<le> hi)"

definition is_space1 :: "char \<Rightarrow> bool" where
  "is_space1 c = (byte_in c 0x09 0x0D \<or> c = CHR 0x20)"

definition is_space2 :: "char \<Rightarrow> char \<Rightarrow> bool" where
  "is_space2 c d = (c = CHR 0xC2 \<and> (d = CHR 0x85 \<or> d = CHR 0xA0))"

definition is_space3 :: "char \<Rightarrow> char \<Rightarrow> char \<Rightarrow> bool" where
  "is_space3 c d e =
     (c = CHR 0xE1 \<and> d = CHR 0x9A \<and> e = CHR 0x80 \<or>
      c = CHR 0xE2 \<and> d = CHR 0x80 \<and>
        (byte_in e 0x80 0x8A \<or> e = CHR 0xA8 \<or> e = CHR 0xA9 \<or> e = CHR 0xAF) \<or>
      c = CHR 0xE2 \<and> d = CHR 0x81 \<and> e = CHR 0x9F \<or>
      c = CHR 0xE3 \<and> d = CHR 0x80 \<and> e = CHR 0x80)"

fun trim_left :: "string \<Rightarrow> string" where
  "trim_left [] = []"
| "trim_left [c] = (if is_space1 c then [] else [c])"
| "trim_left [c, d] =
     (if is_space1 c then trim_left [d] else if is_space2 c d then [] else [c, d])"
| "trim_left (c # d # e # s) =
     (if is_space1 c then trim_left (d # e # s)
      else if is_space2 c d then trim_left (e # s)
      else if is_space3 c d e then trim_left s
      else c # d # e # s)"

fun trim_right :: "string \<Rightarrow> string" where
  "trim_right [] = []"
| "trim_right [e] = (if is_space1 e then [] else [e])"
| "trim_right [e, d] =
     (if is_space1 e then trim_right [d] else if is_space2 d e then [] else [e, d])"
| "trim_right (e # d # c # s) =
     (if is_space1 e then trim_right (d # c # s)
      else if is_space2 d e then trim_right (c # s)
      else if is_space3 c d e then trim_right s
      else e # d # c # s)"

definition TrimSpace :: "string \<Rightarrow> string" where
  "TrimSpace s = rev (trim_right (rev (trim_left s)))"

text \<open>
  \<open>strings.ToLower\<close> and \<open>strings.ToUpper\<close> map every code point through the Unicode
  case tables. The model carries the tables of ASCII and of the Cyrillic letters
  U+0400..U+045F (two bytes each, the first one 0xD0 or 0xD1), which hold every letter of
  the labels the program compares with; any other byte is kept.
\<close>

definition byte_add :: "char \<Rightarrow> nat \<Rightarrow> char" where
  "byte_add c n = char_of (of_char c + n)"

definition byte_sub :: "char \<Rightarrow> nat \<Rightarrow> char" where
  "byte_sub c n = char_of ((of_char c :: nat) - n)"

fun ToLower :: "string \<Rightarrow> string" where
  "ToLower [] = []"
| "ToLower [c] = [if byte_in c 0x41 0x5A then byte_add c 0x20 else c]"
| "ToLower (c # d # s) =
     (if c = CHR 0xD0 \<and> byte_in d 0x80 0x8F then CHR 0xD1 # byte_add d 0x10 # ToLower s
      else if c = CHR 0xD0 \<and> byte_in d 0x90 0x9F then CHR 0xD0 # byte_add d 0x20 # ToLower s
      else if c = CHR 0xD0 \<and> byte_in d 0xA0 0xAF then CHR 0xD1 # byte_sub d 0x20 # ToLower s
      else (if byte_in c 0x41 0x5A then byte_add c 0x20 else c) # ToLower (d # s))"

fun ToUpper :: "string \<Rightarrow> string" where
  "ToUpper [] = []"
| "ToUpper [c] = [if byte_in c 0x61 0x7A then byte_sub c 0x20 else c]"
| "ToUpper (c # d # s) =
     (if c = CHR 0xD1 \<and> byte_in d 0x90 0x9F then CHR 0xD0 # byte_sub d 0x10 # ToUpper s
      else if c = CHR 0xD0 \<and> byte_in d 0xB0 0xBF then CHR 0xD0 # byte_sub d 0x20 # ToUpper s
      else if c = CHR 0xD1 \<and> byte_in d 0x80 0x8F then CHR 0xD0 # byte_add d 0x20 # ToUpper s
      else (if byte_in c 0x61 0x7A then byte_sub c 0x20 else c) # ToUpper (d # s))"

subsection \<open>Decimal numbers\<close>

definition is_digit :: "char \<Rightarrow> bool" where
  "is_digit c = byte_in c 0x30 0x39"

definition digit_val :: "char \<Rightarrow> int" where
  "digit_val c = int (of_char c) - 0x30"

fun nat_digits :: "nat \<Rightarrow> string" where
  "nat_digits n =
     (if n < 10 then [char_of (0x30 + n)]
      else nat_digits (n div 10) @ [char_of (0x30 + n mod 10)])"

declare nat_digits.simps [simp del]

text \<open>\<open>strconv.FormatInt(n, 10)\<close>, also what \<open>%d\<close> prints.\<close>

definition FormatInt :: "int \<Rightarrow> string" where
  "FormatInt n = (if n < 0 then ''-'' @ nat_digits (nat (- n)) else nat_digits (nat n))"



text \<open>
  The scheduler's own \<open>parseInt64\<close>: the loop runs over the characters of the string
  and stops at the first one that is no ASCII digit (a byte of a longer UTF-8 sequence is
  none); the accumulator is an \<open>int64\<close> and wraps.
\<close>

fun parse_loop :: "string \<Rightarrow> int64 \<Rightarrow> int64 option" where
  "parse_loop [] n = Some n"
| "parse_loop (ch # s) n =
     (if \<not> is_digit ch then None else parse_loop s (wrap64 (n * 10 + digit_val ch)))"

definition parseInt64 :: "string \<Rightarrow> int64 option" where
  "parseInt64 s0 =
     (if s0 = [] then None
      else let neg = HasPrefix s0 ''-'';
               s = (if neg then TrimPrefix s0 ''-'' else s0)
           in case parse_loop s 0 of
                None \<Rightarrow> None
              | Some n \<Rightarrow> Some (if neg then wrap64 (- n) else n))"

section \<open>The item store\<close>

text \<open>
  The SQLite database of \<open>Store\<close>: the table \<open>items\<close> (one \<open>row\<close> per item, in the
  order of insertion), the table \<open>kv\<close>, and the counter of \<open>AUTOINCREMENT\<close> (the
  largest identifier ever given out).
\<close>

definition TopicTasks :: string where
  "TopicTasks = ''tasks''"

definition TopicReminders :: string where
  "TopicReminders = ''reminders''"

definition TopicShopping :: string where
  "TopicShopping = ''shopping''"

definition TopicBasket :: string where
  "TopicBasket = ''basket''"

definition StatusActive :: string where
  "StatusActive = ''active''"

record row =
  c_id :: int64
  c_chat_id :: int64
  c_topic :: string
  c_text :: string
  c_status :: string
  c_created_at :: time

record Store =
  items :: "row list"
  kv :: "string \<rightharpoonup> string"
  seq :: int64

record Item =
  ID :: int64
  ChatID :: int64
  ItemTopic :: string
  Text :: string
  CreatedAt :: time

datatype error = StorageError

text \<open>
  What the bot asks of Telegram, in the order of the calls of \<open>Bot.Send\<close> and
  \<open>Bot.Request\<close> (their results are dropped by the program). An inline keyboard is its
  rows of buttons, a button its label and its callback data.
\<close>

datatype keyboard =
  NoKeyboard
| MainMenuKeyboard
| InlineKeyboard "(string \<times> string) list list"

datatype request =
  SendMessage int64 string keyboard
| AnswerCallback string string
| EditMessageText int64 int string
| EditMessageReplyMarkup int64 int keyboard

text \<open>
  The world both loops act on: the database, the requests sent so far, and the storage
  errors to come: every SQL statement takes the head of \<open>faults\<close> and fails when it is
  \<open>True\<close> (no statement fails once the list is empty).
\<close>

record world =
  db :: Store
  sent :: "request list"
  faults :: "bool list"

definition stmt :: "world \<Rightarrow> bool \<times> world" where
  "stmt w = (case faults w of [] \<Rightarrow> (False, w) | f # fs \<Rightarrow> (f, w\<lparr>faults := fs\<rparr>))"

definition Send :: "request \<Rightarrow> world \<Rightarrow> world" where
  "Send r w = w\<lparr>sent := sent w @ [r]\<rparr>"

definition SetKV :: "string \<Rightarrow> string \<Rightarrow> world \<Rightarrow> error option \<times> world" where
  "SetKV key v w =
     (case stmt w of
        (True, w') \<Rightarrow> (Some StorageError, w')
      | (False, w') \<Rightarrow> (None, w'\<lparr>db := (db w')\<lparr>kv := (kv (db w'))(key \<mapsto> v)\<rparr>\<rparr>))"

definition GetKV :: "string \<Rightarrow> world \<Rightarrow> (string \<times> bool) \<times> world" where
  "GetKV key w =
     (case stmt w of
        (True, w') \<Rightarrow> (('''', False), w')
      | (False, w') \<Rightarrow>
          (case kv (db w') key of None \<Rightarrow> (('''', False), w') | Some v \<Rightarrow> ((v, True), w')))"

text \<open>
  \<open>id INTEGER PRIMARY KEY AUTOINCREMENT\<close>: the new identifier is one more than the
  largest identifier ever present in the table; no row can be added after \<open>maxInt64\<close>.
  \<open>created_at\<close> holds the reading \<open>now\<close> of the clock in \<open>AddItem\<close> as a text in
  the format RFC 3339, which has no fraction of a second; \<open>ListActive\<close> parses it back
  into a time (for the years 0 to 9999). The model keeps that time: the reading cut to
  the second.
\<close>

definition to_second :: "time \<Rightarrow> time" where
  "to_second t = t - t mod 1000000000"

definition max_id :: "row list \<Rightarrow> int64" where
  "max_id rs = fold (\<lambda>r m. max (c_id r) m) rs 0"

definition AddItem ::
  "int64 \<Rightarrow> string \<Rightarrow> string \<Rightarrow> time \<Rightarrow> world \<Rightarrow> (error + int64) \<times> world" where
  "AddItem chatID topic txt now w =
     (case stmt w of
        (True, w') \<Rightarrow> (Inl StorageError, w')
      | (False, w') \<Rightarrow>
          (let last = max (seq (db w')) (max_id (items (db w')))
           in if last \<ge> maxInt64 then (Inl StorageError, w')
              else
                (Inr (last + 1),
                 w'\<lparr>db := (db w')
                    \<lparr>items := items (db w') @
                       [\<lparr>c_id = last + 1, c_chat_id = chatID, c_topic = topic, c_text = txt,
                         c_status = StatusActive, c_created_at = to_second now\<rparr>],
                     seq := last + 1\<rparr>\<rparr>)))"

definition scan :: "row \<Rightarrow> Item" where
  "scan r = \<lparr>ID = c_id r, ChatID = c_chat_id r, ItemTopic = c_topic r, Text = c_text r,
             CreatedAt = c_created_at r\<rparr>"

definition selected :: "int64 \<Rightarrow> string \<Rightarrow> row \<Rightarrow> bool" where
  "selected chatID topic r =
     (c_chat_id r = chatID \<and> c_status r = StatusActive \<and> (topic = [] \<or> c_topic r = topic))"

text \<open>The rows the query of \<open>ListActive\<close> selects, \<open>ORDER BY id ASC\<close>, scanned.\<close>

definition query_active :: "int64 \<Rightarrow> string \<Rightarrow> row list \<Rightarrow> Item list" where
  "query_active chatID topic rs = map scan (sort_key c_id (filter (selected chatID topic) rs))"

definition ListActive :: "int64 \<Rightarrow> string \<Rightarrow> world \<Rightarrow> (error + Item list) \<times> world" where
  "ListActive chatID topic w =
     (case stmt w of
        (True, w') \<Rightarrow> (Inl StorageError, w')
      | (False, w') \<Rightarrow> (Inr (query_active chatID topic (items (db w'))), w'))"


definition DeleteAllReminders :: "int64 \<Rightarrow> world \<Rightarrow> error option \<times> world" where
  "DeleteAllReminders chatID w =
     (case stmt w of
        (True, w') \<Rightarrow> (Some StorageError, w')
      | (False, w') \<Rightarrow>
          (None,
           w'\<lparr>db := (db w')
              \<lparr>items := filter (\<lambda>r. \<not> (c_chat_id r = chatID \<and> c_topic r = TopicReminders))
                          (items (db w'))\<rparr>\<rparr>))"

section \<open>The session registry\<close>

text \<open>
  \<open>App.ChatStates\<close> maps a chat to its \<open>ChatState\<close>; every operation runs under
  \<open>StateMu\<close>, so it is one step on the map. \<open>now\<close> is the reading of \<open>time.Now()\<close>
  inside the operation. The fields of \<open>App\<close> that are handles (the bot, the store, the
  calendar) are the \<open>world\<close>.
\<close>

record ChatState =
  Topic :: string
  LastActivity :: time

record App =
  TTL :: Duration
  ChatStates :: "int64 \<rightharpoonup> ChatState"

text \<open>The zero value \<open>ChatState{}\<close>: the empty topic, the zero instant.\<close>

definition zeroChatState :: ChatState where
  "zeroChatState = \<lparr>Topic = [], LastActivity = 0\<rparr>"

definition getState :: "time \<Rightarrow> int64 \<Rightarrow> App \<Rightarrow> ChatState \<times> App" where
  "getState now chatID a =
     (case ChatStates a chatID of
        None \<Rightarrow>
          (let st = \<lparr>Topic = TopicBasket, LastActivity = now\<rparr>
           in (st, a\<lparr>ChatStates := (ChatStates a)(chatID \<mapsto> st)\<rparr>))
      | Some st \<Rightarrow> (st, a))"

definition touchState :: "time \<Rightarrow> int64 \<Rightarrow> App \<Rightarrow> ChatState \<times> App" where
  "touchState now chatID a =
     (case ChatStates a chatID of
        None \<Rightarrow>
          (let st = \<lparr>Topic = TopicBasket, LastActivity = now\<rparr>
           in (st, a\<lparr>ChatStates := (ChatStates a)(chatID \<mapsto> st)\<rparr>))
      | Some st0 \<Rightarrow>
          (let st1 = (if Sub now (LastActivity st0) > TTL a then st0\<lparr>Topic := TopicBasket\<rparr>
                      else st0);
               st = st1\<lparr>LastActivity := now\<rparr>
           in (st, a\<lparr>ChatStates := (ChatStates a)(chatID \<mapsto> st)\<rparr>)))"

definition setTopic :: "time \<Rightarrow> int64 \<Rightarrow> string \<Rightarrow> App \<Rightarrow> App" where
  "setTopic now chatID topic a =
     (let st = (case ChatStates a chatID of None \<Rightarrow> zeroChatState | Some st0 \<Rightarrow> st0)
      in a\<lparr>ChatStates := (ChatStates a)(chatID \<mapsto> st\<lparr>Topic := topic, LastActivity := now\<rparr>)\<rparr>)"

definition resetToMenu :: "time \<Rightarrow> int64 \<Rightarrow> App \<Rightarrow> App" where
  "resetToMenu now chatID a =
     (let st = (case ChatStates a chatID of None \<Rightarrow> zeroChatState | Some st0 \<Rightarrow> st0)
      in a\<lparr>ChatStates :=
             (ChatStates a)(chatID \<mapsto> st\<lparr>Topic := TopicBasket, LastActivity := now\<rparr>)\<rparr>)"

section \<open>The dispatch path\<close>

subsection \<open>Labels and texts\<close>

text \<open>The four labels of \<open>topicLabel\<close>: ZADACHI, NAPOMINANIYA, POKUPKI, KORZINU.\<close>

definition topicLabel :: "string \<Rightarrow> string" where
  "topicLabel topic =
     (if topic = TopicTasks then utf8 [0x417, 0x410, 0x414, 0x410, 0x427, 0x418]
      else if topic = TopicReminders then
        utf8 [0x41D, 0x410, 0x41F, 0x41E, 0x41C, 0x418, 0x41D, 0x410, 0x41D, 0x418, 0x42F]
      else if topic = TopicShopping then utf8 [0x41F, 0x41E, 0x41A, 0x423, 0x41F, 0x41A, 0x418]
      else if topic = TopicBasket then utf8 [0x41A, 0x41E, 0x420, 0x417, 0x418, 0x41D, 0x423]
      else ToUpper topic)"

text \<open>
  The button texts of \<open>isTopicButtonText\<close>, in lower case: zadachi, napominaniya,
  pokupki, korzina, and \<open>menu\<close>.
\<close>

definition isTopicButtonText :: "string \<Rightarrow> string \<times> bool" where
  "isTopicButtonText t =
     (let b = TrimSpace (ToLower t)
      in if b = utf8 [0x437, 0x430, 0x434, 0x430, 0x447, 0x438] then (TopicTasks, True)
         else if b = utf8 [0x43D, 0x430, 0x43F, 0x43E, 0x43C, 0x438, 0x43D, 0x430, 0x43D, 0x438,
                           0x44F]
           then (TopicReminders, True)
         else if b = utf8 [0x43F, 0x43E, 0x43A, 0x443, 0x43F, 0x43A, 0x438]
           then (TopicShopping, True)
         else if b = utf8 [0x43A, 0x43E, 0x440, 0x437, 0x438, 0x43D, 0x430]
           then (TopicBasket, True)
         else if b = ''menu'' then (TopicBasket, True)
         else ([], False))"

text \<open>The texts the bot sends, named after what they say.\<close>

definition txt_menu_default :: string where
  "txt_menu_default =
     utf8 [0x41C, 0x435, 0x43D, 0x44E, 0x20, 0x43E, 0x442, 0x43A, 0x440, 0x44B, 0x442, 0x43E,
           0x2E, 0x20, 0x420, 0x435, 0x436, 0x438, 0x43C, 0x20, 0x43F, 0x43E, 0x20, 0x443,
           0x43C, 0x43E, 0x43B, 0x447, 0x430, 0x43D, 0x438, 0x44E, 0x3A, 0x20, 0x41A, 0x41E,
           0x420, 0x417, 0x418, 0x41D, 0x410, 0x2E]"

definition txt_list_error :: string where
  "txt_list_error =
     utf8 [0x41E, 0x448, 0x438, 0x431, 0x43A, 0x430, 0x20, 0x447, 0x442, 0x435, 0x43D, 0x438,
           0x44F, 0x20, 0x441, 0x43F, 0x438, 0x441, 0x43A, 0x430, 0x2E]"

definition txt_reminders_head :: string where
  "txt_reminders_head =
     utf8 [0x41D, 0x410, 0x41F, 0x41E, 0x41C, 0x418, 0x41D, 0x410, 0x41D, 0x418, 0x42F, 0x3A]"

definition txt_unknown_command :: string where
  "txt_unknown_command =
     utf8 [0x41D, 0x435, 0x438, 0x437, 0x432, 0x435, 0x441, 0x442, 0x43D, 0x430, 0x44F, 0x20,
           0x43A, 0x43E, 0x43C, 0x430, 0x43D, 0x434, 0x430, 0x2E, 0x20, 0x418, 0x441, 0x43F,
           0x43E, 0x43B, 0x44C, 0x437, 0x443, 0x439, 0x20, 0x2F, 0x73, 0x74, 0x61, 0x72, 0x74,
           0x20, 0x438, 0x43B, 0x438, 0x20, 0x2F, 0x6D, 0x65, 0x6E, 0x75, 0x2E]"

definition txt_text_only :: string where
  "txt_text_only =
     utf8 [0x41F, 0x43E, 0x43D, 0x438, 0x43C, 0x430, 0x44E, 0x20, 0x442, 0x43E, 0x43B, 0x44C,
           0x43A, 0x43E, 0x20, 0x442, 0x435, 0x43A, 0x441, 0x442, 0x43E, 0x432, 0x44B, 0x435,
           0x20, 0x441, 0x43E, 0x43E, 0x431, 0x449, 0x435, 0x43D, 0x438, 0x44F, 0x2E]"

definition txt_menu_basket :: string where
  "txt_menu_basket =
     utf8 [0x41C, 0x435, 0x43D, 0x44E, 0x20, 0x43E, 0x442, 0x43A, 0x440, 0x44B, 0x442, 0x43E,
           0x2E, 0x20, 0x420, 0x435, 0x436, 0x438, 0x43C, 0x3A, 0x20, 0x41A, 0x41E, 0x420,
           0x417, 0x418, 0x41D, 0x410, 0x2E]"

definition txt_menu_basket_error :: string where
  "txt_menu_basket_error =
     txt_menu_basket @
     utf8 [0x20, 0x41E, 0x448, 0x438, 0x431, 0x43A, 0x430, 0x20, 0x447, 0x442, 0x435, 0x43D,
           0x438, 0x44F, 0x20, 0x43A, 0x43E, 0x440, 0x437, 0x438, 0x43D, 0x44B, 0x2E]"

definition txt_mode :: "string \<Rightarrow> string" where
  "txt_mode label = utf8 [0x420, 0x435, 0x436, 0x438, 0x43C, 0x3A, 0x20] @ label @ ''.''"

definition txt_mode_error :: "string \<Rightarrow> string" where
  "txt_mode_error label = txt_mode label @ '' '' @ txt_list_error"

definition txt_write_error :: string where
  "txt_write_error =
     utf8 [0x41E, 0x448, 0x438, 0x431, 0x43A, 0x430, 0x20, 0x437, 0x430, 0x43F, 0x438, 0x441,
           0x438, 0x20, 0x432, 0x20, 0x411, 0x414, 0x2E]"

definition txt_added :: "string \<Rightarrow> string" where
  "txt_added label =
     utf8 [0x414, 0x41E, 0x411, 0x410, 0x412, 0x418, 0x41B, 0x20, 0x421, 0x41E, 0x41E, 0x411,
           0x429, 0x415, 0x41D, 0x418, 0x415, 0x20, 0x412, 0x20] @ label @ ''.''"


definition txt_check :: string where
  "txt_check = utf8 [0x2705]"

definition txt_empty :: string where
  "txt_empty = utf8 [0x41F, 0x443, 0x441, 0x442, 0x43E, 0x2E]"

definition txt_is_empty :: string where
  "txt_is_empty = utf8 [0x3A, 0x20, 0x43F, 0x443, 0x441, 0x442, 0x43E, 0x2E]"

definition singleReminderKeyboard :: "int64 \<Rightarrow> keyboard" where
  "singleReminderKeyboard i = InlineKeyboard [[(txt_check, ''done:'' @ FormatInt i)]]"

definition formatSingleReminder :: "Item \<Rightarrow> string" where
  "formatSingleReminder it =
     utf8 [0x41D, 0x410, 0x41F, 0x41E, 0x41C, 0x418, 0x41D, 0x410, 0x41D, 0x418, 0x415, 0x20,
           0x23] @ FormatInt (ID it) @ '': '' @ Text it"

definition formatItems :: "string \<Rightarrow> Item list \<Rightarrow> string" where
  "formatItems topic its =
     (if its = [] then topicLabel topic @ txt_is_empty
      else TrimSpace
             (topicLabel topic @ '':'' @ [CHR 0x0A] @
              concat (map (\<lambda>(i, it). FormatInt (int i + 1) @ '') '' @ Text it @ [CHR 0x0A])
                        (enumerate 0 its))))"

subsection \<open>Handlers\<close>

text \<open>
  \<open>CHAT_ID\<close> is the value of the environment variable of that name.
  \<open>ensureChatID\<close> stores the chat in \<open>kv\<close> when the variable is not set; the error of
  \<open>SetKV\<close> is dropped.
\<close>

definition ensureChatID :: "string \<Rightarrow> int64 \<Rightarrow> world \<Rightarrow> world" where
  "ensureChatID CHAT_ID chatID w =
     (if TrimSpace CHAT_ID \<noteq> [] then w else snd (SetKV ''chat_id'' (FormatInt chatID) w))"

definition send :: "int64 \<Rightarrow> string \<Rightarrow> world \<Rightarrow> world" where
  "send chatID txt w = Send (SendMessage chatID txt MainMenuKeyboard) w"

definition sendRemindersOneByOne :: "int64 \<Rightarrow> Item list \<Rightarrow> world \<Rightarrow> world" where
  "sendRemindersOneByOne chatID its w =
     (if its = [] then send chatID txt_empty w
      else fold (\<lambda>it. Send (SendMessage chatID (formatSingleReminder it)
                                (singleReminderKeyboard (ID it)))) its w)"

text \<open>
  An inbound message: its chat, its text, and \<open>Command\<close>, which is \<open>None\<close> when
  \<open>m.IsCommand()\<close> is false and the name \<open>m.Command()\<close> otherwise.
\<close>

record Message =
  Chat :: int64
  MsgText :: string
  Command :: "string option"

text \<open>
  \<open>handleMessage\<close>: \<open>now\<close> is the clock read by the one registry operation of the
  call, \<open>ins\<close> the clock read by \<open>AddItem\<close>.
\<close>

definition handleMessage ::
  "string \<Rightarrow> time \<Rightarrow> time \<Rightarrow> Message \<Rightarrow> App \<times> world \<Rightarrow> App \<times> world" where
  "handleMessage CHAT_ID now ins m aw =
     (let chatID = Chat m;
          a = fst aw;
          w = ensureChatID CHAT_ID chatID (snd aw)
      in case Command m of
           Some cmd \<Rightarrow>
             if cmd = ''start'' then (resetToMenu now chatID a, send chatID txt_menu_default w)
             else if cmd = ''menu'' then
               (resetToMenu now chatID a, send chatID txt_menu_default w)
             else if cmd = ''list'' then
               (case getState now chatID a of
                  (st, a') \<Rightarrow>
                    (case ListActive chatID (Topic st) w of
                       (Inl err, w') \<Rightarrow> (a', send chatID txt_list_error w')
                     | (Inr its, w') \<Rightarrow>
                         if Topic st = TopicReminders then
                           (a', sendRemindersOneByOne chatID its
                                  (send chatID txt_reminders_head w'))
                         else (a', send chatID (formatItems (Topic st) its) w')))
             else (a, send chatID txt_unknown_command w)
         | None \<Rightarrow>
             if MsgText m = [] then (a, send chatID txt_text_only w)
             else
               (case isTopicButtonText (MsgText m) of
                  (topic, True) \<Rightarrow>
                    if ToLower (TrimSpace (MsgText m)) = ''menu'' then
                      (case ListActive chatID TopicBasket w of
                         (Inl err, w') \<Rightarrow>
                           (resetToMenu now chatID a, send chatID txt_menu_basket_error w')
                       | (Inr its, w') \<Rightarrow>
                           (resetToMenu now chatID a,
                            send chatID (formatItems TopicBasket its)
                              (send chatID txt_menu_basket w')))
                    else
                      (case ListActive chatID topic w of
                         (Inl err, w') \<Rightarrow>
                           (setTopic now chatID topic a,
                            send chatID (txt_mode_error (topicLabel topic)) w')
                       | (Inr its, w') \<Rightarrow>
                           if topic = TopicReminders then
                             (setTopic now chatID topic a,
                              sendRemindersOneByOne chatID its
                                (send chatID (txt_mode (topicLabel topic)) w'))
                           else
                             (setTopic now chatID topic a,
                              send chatID (formatItems topic its)
                                (send chatID (txt_mode (topicLabel topic)) w')))
                | (topic, False) \<Rightarrow>
                    (case touchState now chatID a of
                       (st, a') \<Rightarrow>
                         if TrimSpace (MsgText m) = [] then (a', w)
                         else
                           (case AddItem chatID (Topic st) (TrimSpace (MsgText m)) ins w of
                              (Inl err, w') \<Rightarrow> (a', send chatID txt_write_error w')
                            | (Inr i, w') \<Rightarrow>
                                (a', send chatID (txt_added (topicLabel (Topic st))) w')))))"



section \<open>The scheduler\<close>

record Scheduler =
  reminderTimes :: "string list"
  wipeTime :: string
  morningTime :: string

text \<open>\<open>envOr\<close>, on the value \<open>v\<close> of the environment variable.\<close>

definition envOr :: "string \<Rightarrow> string \<Rightarrow> string" where
  "envOr v def = (if TrimSpace v = [] then def else TrimSpace v)"

definition NewScheduler :: "string \<Rightarrow> Scheduler" where
  "NewScheduler MORNING_TIME =
     \<lparr>reminderTimes = [''08:00'', ''10:00'', ''14:00'', ''19:00'', ''23:00''],
      wipeTime = ''03:00'',
      morningTime = envOr MORNING_TIME ''08:00''\<rparr>"

definition targetChatID :: "string \<Rightarrow> world \<Rightarrow> int64 option \<times> world" where
  "targetChatID CHAT_ID w =
     (case parseInt64 (TrimSpace CHAT_ID) of
        Some chatID \<Rightarrow> (Some chatID, w)
      | None \<Rightarrow>
          (case GetKV ''chat_id'' w of
             ((v, True), w') \<Rightarrow> (parseInt64 (TrimSpace v), w')
           | ((v, False), w') \<Rightarrow> (None, w')))"

definition txt_calendar_error :: string where
  "txt_calendar_error =
     utf8 [0x41E, 0x448, 0x438, 0x431, 0x43A, 0x430, 0x20, 0x447, 0x442, 0x435, 0x43D, 0x438,
           0x44F, 0x20, 0x43A, 0x430, 0x43B, 0x435, 0x43D, 0x434, 0x430, 0x440, 0x44F, 0x3A,
           0x20]"

definition txt_schedule_head :: string where
  "txt_schedule_head =
     utf8 [0x420, 0x410, 0x421, 0x41F, 0x418, 0x421, 0x410, 0x41D, 0x418, 0x415, 0x20, 0x41D,
           0x410, 0x20, 0x421, 0x415, 0x413, 0x41E, 0x414, 0x41D, 0x42F, 0x3A, 0x0A]"

definition txt_wiped :: string where
  "txt_wiped =
     utf8 [0x41D, 0x410, 0x41F, 0x41E, 0x41C, 0x418, 0x41D, 0x410, 0x41D, 0x418, 0x42F, 0x20,
           0x41E, 0x427, 0x418, 0x429, 0x415, 0x41D, 0x42B, 0x20, 0x28, 0x43D, 0x43E, 0x447,
           0x43D, 0x43E, 0x439, 0x20, 0x432, 0x430, 0x439, 0x43F, 0x29, 0x2E]"

text \<open>
  \<open>cal\<close> is what \<open>calendar.GetTodaySchedule\<close> returns at this call: the text
  (\<open>Inr\<close>) or the message of the error (\<open>Inl\<close>).
\<close>

definition sendMorningDigest :: "string \<Rightarrow> string + string \<Rightarrow> world \<Rightarrow> world" where
  "sendMorningDigest CHAT_ID cal w =
     (case targetChatID CHAT_ID w of
        (None, w') \<Rightarrow> w'
      | (Some chatID, w') \<Rightarrow>
          (let txt = (case cal of Inr t \<Rightarrow> t | Inl err \<Rightarrow> txt_calendar_error @ err)
           in Send (SendMessage chatID (txt_schedule_head @ txt) NoKeyboard) w'))"

definition sendReminders :: "string \<Rightarrow> world \<Rightarrow> world" where
  "sendReminders CHAT_ID w =
     (case targetChatID CHAT_ID w of
        (None, w') \<Rightarrow> w'
      | (Some chatID, w') \<Rightarrow>
          (case ListActive chatID TopicReminders w' of
             (Inl err, w'') \<Rightarrow> w''
           | (Inr its, w'') \<Rightarrow>
               if its = [] then w''
               else fold (\<lambda>it. Send (SendMessage chatID (formatSingleReminder it)
                                         (singleReminderKeyboard (ID it)))) its w''))"

definition wipeReminders :: "string \<Rightarrow> world \<Rightarrow> world" where
  "wipeReminders CHAT_ID w =
     (case targetChatID CHAT_ID w of
        (None, w') \<Rightarrow> w'
      | (Some chatID, w') \<Rightarrow>
          (case DeleteAllReminders chatID w' of
             (Some err, w'') \<Rightarrow> w''
           | (None, w'') \<Rightarrow> Send (SendMessage chatID txt_wiped NoKeyboard) w''))"

subsection \<open>The loop\<close>

text \<open>
  One iteration of \<open>Scheduler.loop\<close> reads the clock once: \<open>hhmm\<close> and \<open>today\<close> are
  the two renderings of \<open>now\<close>, \<open>calendar\<close> is the answer the calendar would give then,
  and \<open>others\<close> is what the dispatch loop has done to the world since the iteration
  before.

  The state of the loop is \<open>lastFired\<close> (a Go map: reading an absent key gives the empty
  string), the world, and the list of the actions called so far, each with the time of
  day of its trigger. The Go code keeps no such list; the model adds it, to say how often
  an action is called.
\<close>

record poll =
  hhmm :: string
  today :: string
  calendar :: "string + string"
  others :: "world \<Rightarrow> world"

datatype action = MorningDigest | ReminderBroadcast | NightlyWipe

type_synonym sched_state = "(string \<rightharpoonup> string) \<times> world \<times> (action \<times> string) list"

definition fired_on :: "(string \<rightharpoonup> string) \<Rightarrow> string \<Rightarrow> string" where
  "fired_on lastFired key = (case lastFired key of None \<Rightarrow> [] | Some d \<Rightarrow> d)"

definition morning_step :: "Scheduler \<Rightarrow> string \<Rightarrow> poll \<Rightarrow> sched_state \<Rightarrow> sched_state" where
  "morning_step S CHAT_ID p st =
     (case st of
        (lastFired, w, calls) \<Rightarrow>
          if hhmm p = morningTime S \<and> fired_on lastFired (''morning:'' @ hhmm p) \<noteq> today p
          then (lastFired(''morning:'' @ hhmm p \<mapsto> today p),
                sendMorningDigest CHAT_ID (calendar p) w,
                calls @ [(MorningDigest, hhmm p)])
          else st)"

fun reminders_loop :: "string list \<Rightarrow> string \<Rightarrow> poll \<Rightarrow> sched_state \<Rightarrow> sched_state" where
  "reminders_loop [] CHAT_ID p st = st"
| "reminders_loop (t # ts) CHAT_ID p (lastFired, w, calls) =
     reminders_loop ts CHAT_ID p
       (if hhmm p = t \<and> fired_on lastFired (''reminders:'' @ t) \<noteq> today p
        then (lastFired(''reminders:'' @ t \<mapsto> today p),
              sendReminders CHAT_ID w,
              calls @ [(ReminderBroadcast, t)])
        else (lastFired, w, calls))"

definition wipe_step :: "Scheduler \<Rightarrow> string \<Rightarrow> poll \<Rightarrow> sched_state \<Rightarrow> sched_state" where
  "wipe_step S CHAT_ID p st =
     (case st of
        (lastFired, w, calls) \<Rightarrow>
          if hhmm p = wipeTime S \<and> fired_on lastFired (''wipe:'' @ hhmm p) \<noteq> today p
          then (lastFired(''wipe:'' @ hhmm p \<mapsto> today p),
                wipeReminders CHAT_ID w,
                calls @ [(NightlyWipe, hhmm p)])
          else st)"

definition tick :: "Scheduler \<Rightarrow> string \<Rightarrow> poll \<Rightarrow> sched_state \<Rightarrow> sched_state" where
  "tick S CHAT_ID p st =
     wipe_step S CHAT_ID p
       (reminders_loop (reminderTimes S) CHAT_ID p (morning_step S CHAT_ID p st))"

text \<open>The loop over the ticks of the ticker, until the context is done.\<close>

fun loop :: "Scheduler \<Rightarrow> string \<Rightarrow> poll list \<Rightarrow> sched_state \<Rightarrow> sched_state" where
  "loop S CHAT_ID [] st = st"
| "loop S CHAT_ID (p # ps) (lastFired, w, calls) =
     loop S CHAT_ID ps (tick S CHAT_ID p (lastFired, others p w, calls))"

section \<open>Invariants and examples\<close>

text \<open>The four topics a session can be in.\<close>

definition valid_topic :: "string \<Rightarrow> bool" where
  "valid_topic t =
     (t = TopicBasket \<or> t = TopicTasks \<or> t = TopicReminders \<or> t = TopicShopping)"

definition topics_ok :: "App \<Rightarrow> bool" where
  "topics_ok a = (\<forall>c st. ChatStates a c = Some st \<longrightarrow> valid_topic (Topic st))"

text \<open>
  A small installation for the examples: a TTL of ten minutes (in nanoseconds), one chat
  that chose the tasks at time 0, and a database with one task and one item of the
  basket.
\<close>

definition ten_minutes :: Duration where
  "ten_minutes = 600000000000"

definition fresh_app :: App where
  "fresh_app = \<lparr>TTL = ten_minutes, ChatStates = Map.empty\<rparr>"

definition tasks_app :: App where
  "tasks_app =
     \<lparr>TTL = ten_minutes, ChatStates = [1 \<mapsto> \<lparr>Topic = TopicTasks, LastActivity = 0\<rparr>]\<rparr>"

definition task_row :: row where
  "task_row = \<lparr>c_id = 1, c_chat_id = 1, c_topic = TopicTasks, c_text = ''pay rent'',
               c_status = StatusActive, c_created_at = 0\<rparr>"

definition basket_row :: row where
  "basket_row = \<lparr>c_id = 2, c_chat_id = 1, c_topic = TopicBasket, c_text = ''an idea'',
                 c_status = StatusActive, c_created_at = 0\<rparr>"

definition empty_world :: world where
  "empty_world = \<lparr>db = \<lparr>items = [], kv = Map.empty, seq = 0\<rparr>, sent = [], faults = []\<rparr>"

definition small_world :: world where
  "small_world =
     \<lparr>db = \<lparr>items = [task_row, basket_row], kv = Map.empty, seq = 2\<rparr>, sent = [],
      faults = []\<rparr>"

text \<open>
  The three parts of the state of the loop, the key of \<open>lastFired\<close> for a trigger
  (its action and its time of day), and the triggers a scheduler has.
\<close>

definition fired_of :: "sched_state \<Rightarrow> (string \<rightharpoonup> string)" where
  "fired_of st = fst st"

definition world_of :: "sched_state \<Rightarrow> world" where
  "world_of st = fst (snd st)"

definition calls_of :: "sched_state \<Rightarrow> (action \<times> string) list" where
  "calls_of st = snd (snd st)"

definition trigger_key :: "action \<Rightarrow> string \<Rightarrow> string" where
  "trigger_key a t =
     (case a of MorningDigest \<Rightarrow> ''morning:'' | ReminderBroadcast \<Rightarrow> ''reminders:''
      | NightlyWipe \<Rightarrow> ''wipe:'') @ t"

definition configured :: "Scheduler \<Rightarrow> action \<Rightarrow> string \<Rightarrow> bool" where
  "configured S a t =
     (case a of MorningDigest \<Rightarrow> t = morningTime S
      | ReminderBroadcast \<Rightarrow> t \<in> set (reminderTimes S)
      | NightlyWipe \<Rightarrow> t = wipeTime S)"

text \<open>
  \<open>fires now_due d st st'\<close>: from \<open>st\<close> to \<open>st'\<close>, on the date \<open>d\<close>, every
  trigger that is \<open>now_due\<close> and whose record is not \<open>d\<close> has been called once more
  and no other has been called; the record of every trigger \<open>now_due\<close> is \<open>d\<close>, the
  record of every other one is as it was.
\<close>

definition fires ::
  "(action \<Rightarrow> string \<Rightarrow> bool) \<Rightarrow> string \<Rightarrow> sched_state \<Rightarrow> sched_state \<Rightarrow> bool" where
  "fires now_due d st st' =
     (\<forall>a t.
        count_list (calls_of st') (a, t) =
          count_list (calls_of st) (a, t) +
          (if now_due a t \<and> fired_on (fired_of st) (trigger_key a t) \<noteq> d then 1 else 0) \<and>
        fired_on (fired_of st') (trigger_key a t) =
          (if now_due a t then d else fired_on (fired_of st) (trigger_key a t)))"

text \<open>
  No target chat, whatever the storage does: \<open>CHAT_ID\<close> is no number and \<open>kv\<close> holds
  none. \<open>same_io\<close>: the same database and the same requests sent.
\<close>

definition no_target :: "string \<Rightarrow> world \<Rightarrow> bool" where
  "no_target C w =
     (parseInt64 (TrimSpace C) = None \<and>
      (case kv (db w) ''chat_id'' of None \<Rightarrow> True
       | Some v \<Rightarrow> parseInt64 (TrimSpace v) = None))"

definition same_io :: "world \<Rightarrow> world \<Rightarrow> bool" where
  "same_io w w' = (db w' = db w \<and> sent w' = sent w)"

text \<open>
  More of the examples: the scheduler as \<open>main\<close> makes it (\<open>MORNING_TIME\<close> not set), a
  poll at a time of a day with nothing else going on, the loop at its start, and a
  database with two reminders of chat 1, one of chat 2 and a task.
\<close>

definition the_scheduler :: Scheduler where
  "the_scheduler = NewScheduler []"

definition poll_at :: "string \<Rightarrow> string \<Rightarrow> poll" where
  "poll_at hm d = \<lparr>hhmm = hm, today = d, calendar = Inr [], others = (\<lambda>w. w)\<rparr>"

definition start_state :: sched_state where
  "start_state = (Map.empty, empty_world, [])"

definition reminder_a :: row where
  "reminder_a = \<lparr>c_id = 3, c_chat_id = 1, c_topic = TopicReminders, c_text = ''call home'',
                 c_status = StatusActive, c_created_at = 0\<rparr>"

definition reminder_b :: row where
  "reminder_b = \<lparr>c_id = 4, c_chat_id = 1, c_topic = TopicReminders, c_text = ''water plants'',
                 c_status = StatusActive, c_created_at = 0\<rparr>"

definition other_chat_reminder :: row where
  "other_chat_reminder =
     \<lparr>c_id = 5, c_chat_id = 2, c_topic = TopicReminders, c_text = ''not yours'',
      c_status = StatusActive, c_created_at = 0\<rparr>"

definition reminders_world :: world where
  "reminders_world =
     \<lparr>db = \<lparr>items = [task_row, reminder_a, reminder_b, other_chat_reminder], kv = Map.empty,
            seq = 5\<rparr>,
      sent = [], faults = []\<rparr>"




definition milk_message :: Message where
  "milk_message = \<lparr>Chat = 1, MsgText = '' milk'', Command = None\<rparr>"

section \<open>Evaluation\<close>

lemmas char_eval = char_of_def bit_Suc_0_iff

lemmas topic_defs = TopicBasket_def TopicTasks_def TopicReminders_def TopicShopping_def

lemmas space_defs = TrimSpace_def is_space1_def is_space2_def is_space3_def byte_in_def

lemma TrimSpace_Nil: "TrimSpace [] = []"
  by (simp add: TrimSpace_def)

lemma TrimSpace_one: "TrimSpace ''1'' = ''1''"
  by (simp add: space_defs)


lemma isTopicButtonText_MENU: "isTopicButtonText ''MENU'' = (TopicBasket, True)"
  by (simp add: isTopicButtonText_def Let_def space_defs byte_add_def utf8_def char_eval)

lemma ensureChatID_set: "TrimSpace CHAT_ID \<noteq> [] \<Longrightarrow> ensureChatID CHAT_ID c w = w"
  by (simp add: ensureChatID_def)

lemma the_scheduler_times:
  "reminderTimes the_scheduler = [''08:00'', ''10:00'', ''14:00'', ''19:00'', ''23:00'']"
  "wipeTime the_scheduler = ''03:00''"
  "morningTime the_scheduler = ''08:00''"
  by (simp_all add: the_scheduler_def NewScheduler_def envOr_def TrimSpace_Nil)


lemma no_target_empty: "no_target [] empty_world"
  by (simp add: no_target_def TrimSpace_Nil parseInt64_def empty_world_def)





section \<open>The session registry: topics and expiry\<close>

lemma isTopicButtonText_valid: "isTopicButtonText t = (topic, True) \<Longrightarrow> valid_topic topic"
  by (auto simp: isTopicButtonText_def Let_def valid_topic_def split: if_splits)

lemma topics_ok_getState: "topics_ok a \<Longrightarrow> topics_ok (snd (getState now c a))"
  by (auto simp: getState_def Let_def topics_ok_def valid_topic_def split: option.splits)

lemma topics_ok_touchState: "topics_ok a \<Longrightarrow> topics_ok (snd (touchState now c a))"
  by (auto simp: touchState_def Let_def topics_ok_def valid_topic_def split: option.splits)

lemma valid_getState: "topics_ok a \<Longrightarrow> valid_topic (Topic (fst (getState now c a)))"
  by (auto simp: getState_def Let_def topics_ok_def valid_topic_def split: option.splits)

lemma valid_touchState: "topics_ok a \<Longrightarrow> valid_topic (Topic (fst (touchState now c a)))"
  by (auto simp: touchState_def Let_def topics_ok_def valid_topic_def split: option.splits)

lemma topics_ok_setTopic:
  "topics_ok a \<Longrightarrow> valid_topic topic \<Longrightarrow> topics_ok (setTopic now c topic a)"
  by (simp add: setTopic_def Let_def topics_ok_def)

lemma topics_ok_resetToMenu: "topics_ok a \<Longrightarrow> topics_ok (resetToMenu now c a)"
  by (simp add: resetToMenu_def Let_def topics_ok_def valid_topic_def)

text \<open>What \<open>handleMessage\<close> does to the registry, branch by branch.\<close>

lemma fst_handleMessage:
  "fst (handleMessage CHAT_ID now ins m (a, w)) =
     (case Command m of
        Some cmd \<Rightarrow>
          if cmd = ''start'' \<or> cmd = ''menu'' then resetToMenu now (Chat m) a
          else if cmd = ''list'' then snd (getState now (Chat m) a)
          else a
      | None \<Rightarrow>
          if MsgText m = [] then a
          else (case isTopicButtonText (MsgText m) of
                  (topic, True) \<Rightarrow>
                    if ToLower (TrimSpace (MsgText m)) = ''menu''
                    then resetToMenu now (Chat m) a
                    else setTopic now (Chat m) topic a
                | (topic, False) \<Rightarrow> snd (touchState now (Chat m) a)))"
proof (cases "Command m")
  case (Some cmd)
  obtain st a' where g: "getState now (Chat m) a = (st, a')"
    by (cases "getState now (Chat m) a")
  obtain r w' where l: "ListActive (Chat m) (Topic st) (ensureChatID CHAT_ID (Chat m) w) = (r, w')"
    by (cases "ListActive (Chat m) (Topic st) (ensureChatID CHAT_ID (Chat m) w)")
  show ?thesis
    by (cases r) (simp_all add: handleMessage_def Let_def Some g l)
next
  case None
  obtain topic b where t: "isTopicButtonText (MsgText m) = (topic, b)"
    by (cases "isTopicButtonText (MsgText m)")
  obtain st a' where g: "touchState now (Chat m) a = (st, a')"
    by (cases "touchState now (Chat m) a")
  obtain r1 w1 where l1: "ListActive (Chat m) TopicBasket (ensureChatID CHAT_ID (Chat m) w) = (r1, w1)"
    by (cases "ListActive (Chat m) TopicBasket (ensureChatID CHAT_ID (Chat m) w)")
  obtain r2 w2 where l2: "ListActive (Chat m) topic (ensureChatID CHAT_ID (Chat m) w) = (r2, w2)"
    by (cases "ListActive (Chat m) topic (ensureChatID CHAT_ID (Chat m) w)")
  obtain r3 w3 where l3: "AddItem (Chat m) (Topic st) (TrimSpace (MsgText m)) ins
      (ensureChatID CHAT_ID (Chat m) w) = (r3, w3)"
    by (cases "AddItem (Chat m) (Topic st) (TrimSpace (MsgText m)) ins
      (ensureChatID CHAT_ID (Chat m) w)")
  show ?thesis
    by (cases b; cases r1; cases r2; cases r3)
       (simp_all add: handleMessage_def Let_def None t g l1 l2 l3)
qed

lemma topics_ok_handleMessage:
  assumes "topics_ok a"
  shows "topics_ok (fst (handleMessage CHAT_ID now ins m (a, w)))"
  unfolding fst_handleMessage
  using assms
  by (auto split: option.split prod.split bool.split
        intro: topics_ok_setTopic isTopicButtonText_valid topics_ok_resetToMenu
          topics_ok_getState topics_ok_touchState)

text \<open>
  C3, as the code has it. Two touches of a chat in a row: each one sets \<open>LastActivity\<close>
  to its own reading of the clock, and the second one leaves the session in the basket
  when the time between them is more than the TTL, and in the topic the first one left
  when it is the TTL or less. The same for a touch after \<open>setTopic\<close>: the topic set
  survives a pause of at most the TTL and gives way to the basket after a longer one.
\<close>

theorem touchState_expiry:
  "(case touchState now1 c a of
      (st1, a1) \<Rightarrow>
        (case touchState now2 c a1 of
           (st2, a2) \<Rightarrow>
             LastActivity st1 = now1 \<and> ChatStates a1 c = Some st1 \<and>
             LastActivity st2 = now2 \<and> ChatStates a2 c = Some st2 \<and>
             Topic st2 = (if Sub now2 now1 > TTL a then TopicBasket else Topic st1))) \<and>
   (case touchState now1 c (setTopic now0 c topic a) of
      (st, a') \<Rightarrow>
        LastActivity st = now1 \<and>
        Topic st = (if Sub now1 now0 > TTL a then TopicBasket else topic))"
  by (auto simp: touchState_def setTopic_def Let_def split: option.splits prod.splits)

text \<open>
  C3, as the claim words it (a pause of the TTL or more resets the topic), fails at a
  pause of exactly the TTL: the chat chose the tasks at time 0 and is touched at 0 and
  again ten minutes later, with a TTL of ten minutes; the topic is still the tasks.
\<close>

theorem touchState_at_ttl_keeps_topic:
  "(case touchState ten_minutes 1 (snd (touchState 0 1 (setTopic 0 1 TopicTasks fresh_app))) of
      (st2, a2) \<Rightarrow>
        Sub ten_minutes 0 \<ge> TTL a2 \<and> Topic st2 = TopicTasks \<and> Topic st2 \<noteq> TopicBasket)"
  by (simp add: touchState_def setTopic_def Let_def zeroChatState_def Sub_def maxInt64_def
        minInt64_def fresh_app_def ten_minutes_def topic_defs)

text \<open>
  C10. A registry whose sessions all are in one of the four topics stays so under every
  operation: \<open>getState\<close>, \<open>touchState\<close> and \<open>resetToMenu\<close>, \<open>setTopic\<close> with a topic
  that \<open>isTopicButtonText\<close> returned (it returns none but the four), and so under
  \<open>handleMessage\<close>, the one caller of them all. The sessions the two reads return are
  in one of the four topics as well.
\<close>

theorem registry_topics_valid:
  assumes "topics_ok a"
  shows "topics_ok (snd (getState now c a)) \<and> valid_topic (Topic (fst (getState now c a))) \<and>
         topics_ok (snd (touchState now c a)) \<and>
         valid_topic (Topic (fst (touchState now c a))) \<and>
         topics_ok (resetToMenu now c a) \<and>
         (\<forall>t topic. isTopicButtonText t = (topic, True) \<longrightarrow>
            valid_topic topic \<and> topics_ok (setTopic now c topic a)) \<and>
         topics_ok (fst (handleMessage CHAT_ID now ins m (a, w)))"
  using assms
  by (simp add: topics_ok_getState valid_getState topics_ok_touchState valid_touchState
        topics_ok_resetToMenu topics_ok_handleMessage isTopicButtonText_valid
        topics_ok_setTopic)

theorem registry_topics_valid_witness:
  "topics_ok fresh_app \<and>
   topics_ok (snd (touchState 5 1 fresh_app)) \<and>
   valid_topic (Topic (fst (touchState 5 1 fresh_app))) \<and>
   topics_ok (fst (handleMessage ''1'' 5 5 \<lparr>Chat = 1, MsgText = ''MENU'', Command = None\<rparr>
                     (fresh_app, empty_world))) \<and>
   ChatStates (fst (handleMessage ''1'' 5 5 \<lparr>Chat = 1, MsgText = ''MENU'', Command = None\<rparr>
                     (fresh_app, empty_world))) 1 =
     Some \<lparr>Topic = TopicBasket, LastActivity = 5\<rparr>"
proof -
  have ok: "topics_ok fresh_app"
    by (simp add: topics_ok_def fresh_app_def)
  have menu: "ToLower (TrimSpace ''MENU'') = ''menu''"
    by (simp add: space_defs byte_add_def char_eval)
  have "ChatStates (fst (handleMessage ''1'' 5 5
          \<lparr>Chat = 1, MsgText = ''MENU'', Command = None\<rparr> (fresh_app, empty_world))) 1 =
        Some \<lparr>Topic = TopicBasket, LastActivity = 5\<rparr>"
    by (simp add: fst_handleMessage isTopicButtonText_MENU menu resetToMenu_def Let_def
          fresh_app_def zeroChatState_def)
  with ok registry_topics_valid [OF ok, of 5 1 "''1''" 5
      "\<lparr>Chat = 1, MsgText = ''MENU'', Command = None\<rparr>" empty_world]
  show ?thesis by simp
qed

section \<open>Printing and parsing an identifier\<close>














section \<open>The actions of the scheduler\<close>

lemma stmt_frame: "stmt w = (f, w') \<Longrightarrow> db w' = db w \<and> sent w' = sent w"
  by (auto simp: stmt_def split: list.splits)

lemma GetKV_frame: "GetKV k w = (r, w') \<Longrightarrow> db w' = db w \<and> sent w' = sent w"
  by (auto simp: GetKV_def split: prod.splits bool.splits option.splits dest: stmt_frame)

lemma targetChatID_frame:
  "targetChatID C w = (r, w') \<Longrightarrow> db w' = db w \<and> sent w' = sent w"
  by (auto simp: targetChatID_def split: option.splits prod.splits bool.splits
        dest: GetKV_frame)

lemma targetChatID_None_iff:
  "fst (targetChatID C w) = None \<longleftrightarrow>
     parseInt64 (TrimSpace C) = None \<and>
     (fst (stmt w) \<or>
      (case kv (db w) ''chat_id'' of None \<Rightarrow> True
       | Some v \<Rightarrow> parseInt64 (TrimSpace v) = None))"
  by (auto simp: targetChatID_def GetKV_def stmt_def
        split: option.splits prod.splits bool.splits list.splits)

lemma no_target_None: "no_target C w \<Longrightarrow> fst (targetChatID C w) = None"
  by (auto simp: no_target_def targetChatID_def GetKV_def stmt_def
        split: option.splits prod.splits bool.splits list.splits)

lemma no_target_same_io: "same_io w w' \<Longrightarrow> no_target C w \<Longrightarrow> no_target C w'"
  by (simp add: same_io_def no_target_def)

lemma sendReminders_no_target:
  "fst (targetChatID C w) = None \<Longrightarrow>
   db (sendReminders C w) = db w \<and> sent (sendReminders C w) = sent w"
  by (cases "targetChatID C w") (auto simp: sendReminders_def dest: targetChatID_frame)

lemma sendMorningDigest_no_target:
  "fst (targetChatID C w) = None \<Longrightarrow>
   db (sendMorningDigest C cal w) = db w \<and> sent (sendMorningDigest C cal w) = sent w"
  by (cases "targetChatID C w") (auto simp: sendMorningDigest_def dest: targetChatID_frame)

lemma wipeReminders_no_target:
  "fst (targetChatID C w) = None \<Longrightarrow>
   db (wipeReminders C w) = db w \<and> sent (wipeReminders C w) = sent w"
  by (cases "targetChatID C w") (auto simp: wipeReminders_def dest: targetChatID_frame)

text \<open>
  C8. When \<open>targetChatID\<close> finds no chat (\<open>CHAT_ID\<close> is no number, and \<open>kv\<close> holds
  no chat, or none that is a number, or cannot be read: \<open>targetChatID_None_iff\<close>), each
  of the three actions returns at once: the database and the list of requests sent are
  what they were.
\<close>

theorem no_target_no_action:
  assumes "fst (targetChatID C w) = None"
  shows "db (sendReminders C w) = db w \<and> sent (sendReminders C w) = sent w \<and>
         db (sendMorningDigest C cal w) = db w \<and> sent (sendMorningDigest C cal w) = sent w \<and>
         db (wipeReminders C w) = db w \<and> sent (wipeReminders C w) = sent w"
  using assms
  by (simp add: sendReminders_no_target sendMorningDigest_no_target wipeReminders_no_target)

theorem no_target_no_action_witness:
  "fst (targetChatID [] reminders_world) = None \<and>
   db (sendReminders [] reminders_world) = db reminders_world \<and>
   sent (sendReminders [] reminders_world) = [] \<and>
   db (wipeReminders [] reminders_world) = db reminders_world \<and>
   sent (wipeReminders [] reminders_world) = [] \<and>
   sent (sendMorningDigest [] (Inr ''free day'') reminders_world) = []"
proof -
  have none: "fst (targetChatID [] reminders_world) = None"
    by (simp add: targetChatID_def TrimSpace_Nil parseInt64_def GetKV_def stmt_def
          reminders_world_def)
  have "sent reminders_world = []"
    by (simp add: reminders_world_def)
  with none no_target_no_action [OF none, of "Inr ''free day''"] show ?thesis
    by simp
qed









section \<open>The loop of the scheduler: one call a day\<close>

lemma trigger_key_inj [simp]: "trigger_key a t = trigger_key a' t' \<longleftrightarrow> a = a' \<and> t = t'"
  by (cases a; cases a'; simp add: trigger_key_def)

lemma key_simps:
  "''morning:'' @ t = trigger_key MorningDigest t"
  "''reminders:'' @ t = trigger_key ReminderBroadcast t"
  "''wipe:'' @ t = trigger_key NightlyWipe t"
  by (simp_all add: trigger_key_def)

lemma fired_on_upd [simp]:
  "fired_on (m(k \<mapsto> d)) k' = (if k' = k then d else fired_on m k')"
  by (simp add: fired_on_def)

lemma fires_comp:
  assumes "fires T1 d st st1" and "fires T2 d st1 st2"
  shows "fires (\<lambda>a t. T1 a t \<or> T2 a t) d st st2"
  unfolding fires_def
proof (intro allI)
  fix a t
  from assms(1) have 1:
    "count_list (calls_of st1) (a, t) = count_list (calls_of st) (a, t) +
       (if T1 a t \<and> fired_on (fired_of st) (trigger_key a t) \<noteq> d then 1 else 0)"
    "fired_on (fired_of st1) (trigger_key a t) =
       (if T1 a t then d else fired_on (fired_of st) (trigger_key a t))"
    by (simp_all add: fires_def)
  from assms(2) have 2:
    "count_list (calls_of st2) (a, t) = count_list (calls_of st1) (a, t) +
       (if T2 a t \<and> fired_on (fired_of st1) (trigger_key a t) \<noteq> d then 1 else 0)"
    "fired_on (fired_of st2) (trigger_key a t) =
       (if T2 a t then d else fired_on (fired_of st1) (trigger_key a t))"
    by (simp_all add: fires_def)
  show "count_list (calls_of st2) (a, t) =
          count_list (calls_of st) (a, t) +
          (if (T1 a t \<or> T2 a t) \<and> fired_on (fired_of st) (trigger_key a t) \<noteq> d
           then 1 else 0) \<and>
        fired_on (fired_of st2) (trigger_key a t) =
          (if T1 a t \<or> T2 a t then d else fired_on (fired_of st) (trigger_key a t))"
    unfolding 1 2 by (cases "T1 a t"; cases "T2 a t"; simp)
qed

lemma fires_cong:
  "fires T d st st' \<Longrightarrow> (\<And>a t. T a t = T' a t) \<Longrightarrow> fires T' d st st'"
  by (simp add: fires_def)

lemma fires_one:
  "fires (\<lambda>a t. a = a0 \<and> t = t0 \<and> b) d (lf, w, calls)
     (if b \<and> fired_on lf (trigger_key a0 t0) \<noteq> d
      then (lf(trigger_key a0 t0 \<mapsto> d), w', calls @ [(a0, t0)])
      else (lf, w, calls))"
  unfolding fires_def
proof (intro allI)
  fix a t
  show "count_list (calls_of (if b \<and> fired_on lf (trigger_key a0 t0) \<noteq> d
                             then (lf(trigger_key a0 t0 \<mapsto> d), w', calls @ [(a0, t0)])
                             else (lf, w, calls))) (a, t) =
        count_list (calls_of (lf, w, calls)) (a, t) +
        (if (a = a0 \<and> t = t0 \<and> b) \<and>
            fired_on (fired_of (lf, w, calls)) (trigger_key a t) \<noteq> d then 1 else 0) \<and>
        fired_on (fired_of (if b \<and> fired_on lf (trigger_key a0 t0) \<noteq> d
                            then (lf(trigger_key a0 t0 \<mapsto> d), w', calls @ [(a0, t0)])
                            else (lf, w, calls))) (trigger_key a t) =
        (if a = a0 \<and> t = t0 \<and> b then d
         else fired_on (fired_of (lf, w, calls)) (trigger_key a t))"
    by (cases "a = a0"; cases "t = t0"; cases b;
        cases "fired_on lf (trigger_key a0 t0) = d"; simp add: fired_of_def calls_of_def)
qed

lemma morning_step_eq:
  "morning_step S C p (lf, w, calls) =
     (if hhmm p = morningTime S \<and>
         fired_on lf (trigger_key MorningDigest (morningTime S)) \<noteq> today p
      then (lf(trigger_key MorningDigest (morningTime S) \<mapsto> today p),
            sendMorningDigest C (calendar p) w, calls @ [(MorningDigest, morningTime S)])
      else (lf, w, calls))"
  unfolding morning_step_def key_simps by (simp cong: conj_cong)

lemma wipe_step_eq:
  "wipe_step S C p (lf, w, calls) =
     (if hhmm p = wipeTime S \<and> fired_on lf (trigger_key NightlyWipe (wipeTime S)) \<noteq> today p
      then (lf(trigger_key NightlyWipe (wipeTime S) \<mapsto> today p),
            wipeReminders C w, calls @ [(NightlyWipe, wipeTime S)])
      else (lf, w, calls))"
  unfolding wipe_step_def key_simps by (simp cong: conj_cong)

lemma fires_morning:
  "fires (\<lambda>a t. a = MorningDigest \<and> t = morningTime S \<and> hhmm p = morningTime S) (today p) st
     (morning_step S C p st)"
proof -
  obtain lf w calls where st: "st = (lf, w, calls)" by (cases st)
  show ?thesis unfolding st morning_step_eq by (rule fires_one)
qed

lemma fires_wipe:
  "fires (\<lambda>a t. a = NightlyWipe \<and> t = wipeTime S \<and> hhmm p = wipeTime S) (today p) st
     (wipe_step S C p st)"
proof -
  obtain lf w calls where st: "st = (lf, w, calls)" by (cases st)
  show ?thesis unfolding st wipe_step_eq by (rule fires_one)
qed

lemma fires_reminders:
  "fires (\<lambda>a t. a = ReminderBroadcast \<and> t \<in> set ts \<and> hhmm p = t) (today p) st
     (reminders_loop ts C p st)"
proof (induction ts arbitrary: st)
  case Nil
  show ?case by (simp add: fires_def)
next
  case (Cons t0 ts)
  obtain lf w calls where st: "st = (lf, w, calls)" by (cases st)
  have "fires (\<lambda>a t. (a = ReminderBroadcast \<and> t = t0 \<and> hhmm p = t0) \<or>
                     (a = ReminderBroadcast \<and> t \<in> set ts \<and> hhmm p = t))
          (today p) st (reminders_loop (t0 # ts) C p st)"
    unfolding st reminders_loop.simps key_simps
    by (rule fires_comp [OF fires_one Cons.IH])
  then show ?case
    by (rule fires_cong) auto
qed

lemma fires_tick:
  "fires (\<lambda>a t. configured S a t \<and> hhmm p = t) (today p) st (tick S C p st)"
proof -
  have "fires (\<lambda>a t. ((a = MorningDigest \<and> t = morningTime S \<and> hhmm p = morningTime S) \<or>
                      (a = ReminderBroadcast \<and> t \<in> set (reminderTimes S) \<and> hhmm p = t)) \<or>
                     (a = NightlyWipe \<and> t = wipeTime S \<and> hhmm p = wipeTime S))
          (today p) st (tick S C p st)"
    unfolding tick_def
    by (rule fires_comp [OF fires_comp [OF fires_morning fires_reminders] fires_wipe])
  then show ?thesis
    by (rule fires_cong) (auto simp add: configured_def split: action.split)
qed

lemma fires_world:
  "fires T d st st' \<Longrightarrow> fired_of st0 = fired_of st \<Longrightarrow> calls_of st0 = calls_of st \<Longrightarrow>
   fires T d st0 st'"
  by (simp add: fires_def)

lemma fires_loop:
  assumes "\<forall>p\<in>set ps. today p = d"
  shows "fires (\<lambda>a t. configured S a t \<and> t \<in> hhmm ` set ps) d st (loop S C ps st)"
  using assms
proof (induction ps arbitrary: st)
  case Nil
  show ?case by (simp add: fires_def)
next
  case (Cons p ps)
  obtain lf w calls where st: "st = (lf, w, calls)" by (cases st)
  from Cons.prems have d: "today p = d" and rest: "\<forall>p\<in>set ps. today p = d" by simp_all
  have "fires (\<lambda>a t. configured S a t \<and> hhmm p = t) d (lf, others p w, calls)
          (tick S C p (lf, others p w, calls))"
    using fires_tick [of S p "(lf, others p w, calls)" C] by (simp add: d)
  then have "fires (\<lambda>a t. configured S a t \<and> hhmm p = t) d st
          (tick S C p (lf, others p w, calls))"
    by (rule fires_world) (simp_all add: st fired_of_def calls_of_def)
  from fires_comp [OF this Cons.IH [OF rest]]
  have "fires (\<lambda>a t. (configured S a t \<and> hhmm p = t) \<or>
                     (configured S a t \<and> t \<in> hhmm ` set ps)) d st (loop S C (p # ps) st)"
    by (simp add: st)
  then show ?case
    by (rule fires_cong) auto
qed




lemma morning_step_noop:
  assumes "no_target C (world_of st)"
  shows "same_io (world_of st) (world_of (morning_step S C p st))"
proof -
  obtain lf w calls where st: "st = (lf, w, calls)" by (cases st)
  from assms have "fst (targetChatID C w) = None"
    by (simp add: st world_of_def no_target_None)
  then show ?thesis
    by (simp add: st morning_step_def world_of_def same_io_def sendMorningDigest_no_target)
qed

lemma wipe_step_noop:
  assumes "no_target C (world_of st)"
  shows "same_io (world_of st) (world_of (wipe_step S C p st))"
proof -
  obtain lf w calls where st: "st = (lf, w, calls)" by (cases st)
  from assms have "fst (targetChatID C w) = None"
    by (simp add: st world_of_def no_target_None)
  then show ?thesis
    by (simp add: st wipe_step_def world_of_def same_io_def wipeReminders_no_target)
qed

lemma reminders_loop_noop:
  assumes "no_target C (world_of st)"
  shows "same_io (world_of st) (world_of (reminders_loop ts C p st))"
  using assms
proof (induction ts arbitrary: st)
  case Nil
  show ?case by (simp add: same_io_def)
next
  case (Cons t0 ts)
  obtain lf w calls where st: "st = (lf, w, calls)" by (cases st)
  define st1 where "st1 =
    (if hhmm p = t0 \<and> fired_on lf (''reminders:'' @ t0) \<noteq> today p
     then (lf(''reminders:'' @ t0 \<mapsto> today p), sendReminders C w,
           calls @ [(ReminderBroadcast, t0)])
     else (lf, w, calls))"
  from Cons.prems have none: "fst (targetChatID C w) = None"
    by (simp add: st world_of_def no_target_None)
  have io: "same_io w (world_of st1)"
    by (simp add: st1_def world_of_def same_io_def sendReminders_no_target [OF none])
  moreover from Cons.prems have "no_target C w"
    by (simp add: st world_of_def)
  ultimately have "no_target C (world_of st1)"
    by (rule no_target_same_io)
  from Cons.IH [OF this] io
  have "same_io w (world_of (reminders_loop ts C p st1))"
    by (simp add: same_io_def)
  then show ?case
    by (simp add: st st1_def world_of_def)
qed

lemma tick_noop:
  assumes "no_target C (world_of st)"
  shows "same_io (world_of st) (world_of (tick S C p st))"
proof -
  have 1: "same_io (world_of st) (world_of (morning_step S C p st))"
    by (rule morning_step_noop [OF assms])
  then have n1: "no_target C (world_of (morning_step S C p st))"
    using assms by (rule no_target_same_io)
  have 2: "same_io (world_of (morning_step S C p st))
             (world_of (reminders_loop (reminderTimes S) C p (morning_step S C p st)))"
    by (rule reminders_loop_noop [OF n1])
  then have n2: "no_target C
      (world_of (reminders_loop (reminderTimes S) C p (morning_step S C p st)))"
    using n1 by (rule no_target_same_io)
  from 1 2 wipe_step_noop [OF n2, of S p] show ?thesis
    by (simp add: tick_def same_io_def)
qed

text \<open>
  C2. A poll that reads the time of day of a trigger leaves the record of the trigger at
  today's date, whatever its action does with the world it finds: the record is written
  before the action is called and the action cannot touch it. So the action is not called
  again by any later poll of the same date, also when it did nothing: with no target chat
  the database and the requests sent are unchanged by the poll, and the record is written
  all the same.
\<close>

theorem record_outlives_failed_action:
  assumes "configured S a t" and "hhmm p = t" and "\<forall>q\<in>set qs. today q = today p"
  shows "fired_on (fired_of (tick S C p st)) (trigger_key a t) = today p \<and>
         count_list (calls_of (tick S C p st)) (a, t) =
           count_list (calls_of st) (a, t) +
           (if fired_on (fired_of st) (trigger_key a t) \<noteq> today p then 1 else 0) \<and>
         count_list (calls_of (loop S C qs (tick S C p st))) (a, t) =
           count_list (calls_of (tick S C p st)) (a, t) \<and>
         (no_target C (world_of st) \<longrightarrow>
            db (world_of (tick S C p st)) = db (world_of st) \<and>
            sent (world_of (tick S C p st)) = sent (world_of st))"
proof -
  from fires_tick [of S p st C] assms(1,2)
  have 1: "fired_on (fired_of (tick S C p st)) (trigger_key a t) = today p"
    and 2: "count_list (calls_of (tick S C p st)) (a, t) =
              count_list (calls_of st) (a, t) +
              (if fired_on (fired_of st) (trigger_key a t) \<noteq> today p then 1 else 0)"
    by (simp_all add: fires_def)
  from fires_loop [OF assms(3), of S "tick S C p st" C]
  have "count_list (calls_of (loop S C qs (tick S C p st))) (a, t) =
          count_list (calls_of (tick S C p st)) (a, t) +
          (if (configured S a t \<and> t \<in> hhmm ` set qs) \<and>
              fired_on (fired_of (tick S C p st)) (trigger_key a t) \<noteq> today p then 1 else 0)"
    by (simp add: fires_def)
  then have 3: "count_list (calls_of (loop S C qs (tick S C p st))) (a, t) =
          count_list (calls_of (tick S C p st)) (a, t)"
    unfolding 1 by simp
  have 4: "no_target C (world_of st) \<longrightarrow>
            db (world_of (tick S C p st)) = db (world_of st) \<and>
            sent (world_of (tick S C p st)) = sent (world_of st)"
    using tick_noop [of C st S p] by (simp add: same_io_def)
  from 1 2 3 4 show ?thesis by blast
qed

theorem record_outlives_failed_action_witness:
  "fired_on (fired_of (tick the_scheduler [] (poll_at ''03:00'' ''2026-01-05'') start_state))
     (trigger_key NightlyWipe ''03:00'') = ''2026-01-05'' \<and>
   count_list (calls_of (tick the_scheduler [] (poll_at ''03:00'' ''2026-01-05'') start_state))
     (NightlyWipe, ''03:00'') = 1 \<and>
   count_list (calls_of (loop the_scheduler [] [poll_at ''03:00'' ''2026-01-05'']
       (tick the_scheduler [] (poll_at ''03:00'' ''2026-01-05'') start_state)))
     (NightlyWipe, ''03:00'') = 1 \<and>
   db (world_of (tick the_scheduler [] (poll_at ''03:00'' ''2026-01-05'') start_state)) =
     db empty_world \<and>
   sent (world_of (tick the_scheduler [] (poll_at ''03:00'' ''2026-01-05'') start_state)) = []"
  using record_outlives_failed_action [of the_scheduler NightlyWipe "''03:00''"
      "poll_at ''03:00'' ''2026-01-05''" "[poll_at ''03:00'' ''2026-01-05'']" "[]" start_state]
    no_target_empty
  by (simp add: poll_at_def configured_def the_scheduler_times start_state_def calls_of_def
        fired_of_def fired_on_def world_of_def empty_world_def)

section \<open>The handlers of the dispatch path\<close>

subsection \<open>Listing after the TTL\<close>

lemma topics_distinct:
  "TopicTasks \<noteq> TopicReminders" "TopicBasket \<noteq> TopicReminders"
  "TopicShopping \<noteq> TopicReminders" "TopicTasks \<noteq> TopicBasket"
  "TopicReminders \<noteq> []" "TopicBasket \<noteq> []"
  by (simp_all add: topic_defs)

lemma getState_existing: "ChatStates a c = Some st \<Longrightarrow> getState now c a = (st, a)"
  by (simp add: getState_def)

text \<open>
  C4, on the code. The chat chose the tasks at time 0 and sends \<open>/list\<close> eleven minutes
  later, with a TTL of ten minutes: \<open>getState\<close> returns the session as it is, so the
  tasks are listed, not the basket, and the session keeps its topic and its
  \<open>LastActivity\<close> of 0.
\<close>

theorem list_after_expiry_reads_stale_topic:
  "(case handleMessage ''1'' 660000000000 660000000000
           \<lparr>Chat = 1, MsgText = ''/list'', Command = Some ''list''\<rparr> (tasks_app, small_world) of
      (a', w') \<Rightarrow>
        Sub 660000000000 0 > TTL tasks_app \<and>
        ChatStates a' 1 = Some \<lparr>Topic = TopicTasks, LastActivity = 0\<rparr> \<and>
        sent w' = [SendMessage 1 (formatItems TopicTasks [scan task_row]) MainMenuKeyboard])"
proof -
  have st: "getState 660000000000 1 tasks_app =
              (\<lparr>Topic = TopicTasks, LastActivity = 0\<rparr>, tasks_app)"
    by (rule getState_existing) (simp add: tasks_app_def)
  have q: "query_active 1 TopicTasks [task_row, basket_row] = [scan task_row]"
    by (simp add: query_active_def selected_def task_row_def basket_row_def topic_defs)
  have l: "ListActive 1 TopicTasks small_world = (Inr [scan task_row], small_world)"
    by (simp add: ListActive_def stmt_def small_world_def q)
  have ttl: "Sub 660000000000 0 > TTL tasks_app"
    by (simp add: Sub_def maxInt64_def minInt64_def tasks_app_def ten_minutes_def)
  have "handleMessage ''1'' 660000000000 660000000000
           \<lparr>Chat = 1, MsgText = ''/list'', Command = Some ''list''\<rparr> (tasks_app, small_world) =
        (tasks_app, send 1 (formatItems TopicTasks [scan task_row]) small_world)"
    by (simp add: handleMessage_def Let_def ensureChatID_def TrimSpace_one st l topics_distinct)
  then show ?thesis
    using ttl by (simp add: send_def Send_def small_world_def tasks_app_def)
qed

subsection \<open>Completion of an item\<close>

lemma ensureChatID_frame:
  "items (db (ensureChatID C c w)) = items (db w)"
  "seq (db (ensureChatID C c w)) = seq (db w)"
  "sent (ensureChatID C c w) = sent w"
  by (simp_all add: ensureChatID_def SetKV_def stmt_def split: list.split bool.split)













subsection \<open>Capture of a text\<close>

lemma insort_key_snoc:
  "f y \<le> f x \<Longrightarrow> insort_key f y (zs @ [x]) = insort_key f y zs @ [x]"
  by (induction zs) simp_all

lemma sort_key_snoc:
  "\<forall>y\<in>set xs. f y \<le> f x \<Longrightarrow> sort_key f (xs @ [x]) = sort_key f xs @ [x]"
proof (induction xs)
  case Nil
  show ?case by (simp add: sort_key_def)
next
  case (Cons y xs)
  then have "sort_key f (xs @ [x]) = sort_key f xs @ [x]" and "f y \<le> f x"
    by simp_all
  then show ?case
    by (simp add: sort_key_def insort_key_snoc)
qed

lemma fold_max_ge: "m \<le> fold (\<lambda>r m. max (c_id r) m) rs m"
proof (induction rs arbitrary: m)
  case Nil
  show ?case by simp
next
  case (Cons a rs)
  have "m \<le> max (c_id a) m" by simp
  also have "\<dots> \<le> fold (\<lambda>r m. max (c_id r) m) rs (max (c_id a) m)"
    by (rule Cons.IH)
  finally show ?case by simp
qed

lemma max_id_ge: "r \<in> set rs \<Longrightarrow> c_id r \<le> max_id rs"
proof -
  have "\<And>m. r \<in> set rs \<Longrightarrow> c_id r \<le> fold (\<lambda>r m. max (c_id r) m) rs m"
  proof (induction rs)
    case Nil
    then show ?case by simp
  next
    case (Cons a rs)
    show ?case
    proof (cases "r = a")
      case True
      have "c_id a \<le> max (c_id a) m" by simp
      also have "\<dots> \<le> fold (\<lambda>r m. max (c_id r) m) rs (max (c_id a) m)"
        by (rule fold_max_ge)
      finally show ?thesis by (simp add: True)
    next
      case False
      with Cons.prems have "r \<in> set rs" by simp
      from Cons.IH [OF this] show ?thesis by simp
    qed
  qed
  then show "r \<in> set rs \<Longrightarrow> c_id r \<le> max_id rs"
    by (simp add: max_id_def)
qed

lemma sorted_query_active: "sorted (map ID (query_active c topic rs))"
proof -
  have "map ID (query_active c topic rs) = map c_id (sort_key c_id (filter (selected c topic) rs))"
    by (simp add: query_active_def scan_def comp_def)
  then show ?thesis by simp
qed

lemma set_query_active:
  "set (query_active c topic rs) = scan ` {r \<in> set rs. selected c topic r}"
  by (simp add: query_active_def)

lemma AddItem_Inr:
  assumes "fst (AddItem c topic txt now w) = Inr i"
  shows "items (db (snd (AddItem c topic txt now w))) =
           items (db w) @ [\<lparr>c_id = i, c_chat_id = c, c_topic = topic, c_text = txt,
                            c_status = StatusActive, c_created_at = to_second now\<rparr>]"
    and "\<forall>r\<in>set (items (db w)). c_id r < i"
    and "sent (snd (AddItem c topic txt now w)) = sent w"
proof -
  from assms have i: "i = max (seq (db w)) (max_id (items (db w))) + 1"
    by (auto simp: AddItem_def stmt_def Let_def split: list.splits bool.splits if_splits)
  from assms show "items (db (snd (AddItem c topic txt now w))) =
           items (db w) @ [\<lparr>c_id = i, c_chat_id = c, c_topic = topic, c_text = txt,
                            c_status = StatusActive, c_created_at = to_second now\<rparr>]"
    by (auto simp: AddItem_def stmt_def Let_def split: list.splits bool.splits if_splits)
  from assms show "sent (snd (AddItem c topic txt now w)) = sent w"
    by (auto simp: AddItem_def stmt_def Let_def split: list.splits bool.splits if_splits)
  show "\<forall>r\<in>set (items (db w)). c_id r < i"
  proof
    fix r assume "r \<in> set (items (db w))"
    from max_id_ge [OF this] show "c_id r < i" by (simp add: i)
  qed
qed

lemma handleMessage_text:
  assumes "Command m = None" and "snd (isTopicButtonText (MsgText m)) = False"
    and "TrimSpace (MsgText m) \<noteq> []"
  shows "handleMessage C now ins m (a, w) =
           (case touchState now (Chat m) a of
              (st, a') \<Rightarrow>
                (case AddItem (Chat m) (Topic st) (TrimSpace (MsgText m)) ins
                        (ensureChatID C (Chat m) w) of
                   (Inl err, w') \<Rightarrow> (a', send (Chat m) txt_write_error w')
                 | (Inr i, w') \<Rightarrow> (a', send (Chat m) (txt_added (topicLabel (Topic st))) w')))"
proof -
  from assms(3) have ne: "MsgText m \<noteq> []"
    by (auto simp: TrimSpace_Nil)
  obtain topic where b: "isTopicButtonText (MsgText m) = (topic, False)"
    using assms(2) by (cases "isTopicButtonText (MsgText m)") simp
  show ?thesis
    by (simp add: handleMessage_def Let_def assms(1,3) ne b)
qed

text \<open>
  C9, as the code has it. A message that is no command and no button, with a text that is
  not only white space, whose insertion succeeds with the identifier \<open>i\<close>: the table
  gains one row, last, for the chat and the topic the session is in after the touch, with
  the text of the message without the white space around it. The query of \<open>ListActive\<close>
  for the chat and the topic then gives what it gave before followed by the new item; it
  gives all the selected rows and nothing else, in ascending order of their identifiers,
  and a call of \<open>ListActive\<close> that does not fail returns it.
\<close>

theorem captured_text_is_listed:
  assumes "Command m = None" and "snd (isTopicButtonText (MsgText m)) = False"
    and "TrimSpace (MsgText m) \<noteq> []"
    and "topic = Topic (fst (touchState now (Chat m) a))"
    and "fst (AddItem (Chat m) topic (TrimSpace (MsgText m)) ins (ensureChatID C (Chat m) w)) =
           Inr i"
    and "w' = snd (handleMessage C now ins m (a, w))"
  shows "items (db w') =
           items (db w) @ [\<lparr>c_id = i, c_chat_id = Chat m, c_topic = topic,
                            c_text = TrimSpace (MsgText m), c_status = StatusActive,
                            c_created_at = to_second ins\<rparr>] \<and>
         query_active (Chat m) topic (items (db w')) =
           query_active (Chat m) topic (items (db w)) @
           [\<lparr>ID = i, ChatID = Chat m, ItemTopic = topic, Text = TrimSpace (MsgText m),
             CreatedAt = to_second ins\<rparr>] \<and>
         sorted (map ID (query_active (Chat m) topic (items (db w')))) \<and>
         set (query_active (Chat m) topic (items (db w'))) =
           scan ` {r \<in> set (items (db w')). selected (Chat m) topic r} \<and>
         (\<forall>v. db v = db w' \<and> fst (stmt v) = False \<longrightarrow>
              fst (ListActive (Chat m) topic v) =
                Inr (query_active (Chat m) topic (items (db w'))))"
proof -
  let ?w0 = "ensureChatID C (Chat m) w"
  let ?new = "\<lparr>c_id = i, c_chat_id = Chat m, c_topic = topic,
                c_text = TrimSpace (MsgText m), c_status = StatusActive, c_created_at = to_second ins\<rparr>"
  obtain st a' where t: "touchState now (Chat m) a = (st, a')"
    by (cases "touchState now (Chat m) a")
  with assms(4) have topic: "Topic st = topic" by simp
  obtain w1 where add: "AddItem (Chat m) topic (TrimSpace (MsgText m)) ins ?w0 = (Inr i, w1)"
    using assms(5) by (cases "AddItem (Chat m) topic (TrimSpace (MsgText m)) ins ?w0") simp
  from AddItem_Inr [OF assms(5)] add
  have it: "items (db w1) = items (db w) @ [?new]"
    and lt: "\<forall>r\<in>set (items (db w)). c_id r < i"
    by (simp_all add: ensureChatID_frame)
  have w': "w' = send (Chat m) (txt_added (topicLabel topic)) w1"
    unfolding assms(6) handleMessage_text [OF assms(1-3)] by (simp add: t topic add)
  have 1: "items (db w') = items (db w) @ [?new]"
    by (simp add: w' send_def Send_def it)
  have sel: "selected (Chat m) topic ?new"
    by (simp add: selected_def)
  have le: "\<forall>y\<in>set (filter (selected (Chat m) topic) (items (db w))). c_id y \<le> c_id ?new"
    using lt by auto
  have 2: "query_active (Chat m) topic (items (db w')) =
             query_active (Chat m) topic (items (db w)) @
             [\<lparr>ID = i, ChatID = Chat m, ItemTopic = topic, Text = TrimSpace (MsgText m),
               CreatedAt = to_second ins\<rparr>]"
    unfolding 1 query_active_def
    by (simp add: sel sort_key_snoc [OF le] scan_def)
  have 3: "\<forall>v. db v = db w' \<and> fst (stmt v) = False \<longrightarrow>
              fst (ListActive (Chat m) topic v) =
                Inr (query_active (Chat m) topic (items (db w')))"
  proof (intro allI impI)
    fix v assume v: "db v = db w' \<and> fst (stmt v) = False"
    then obtain v1 where s: "stmt v = (False, v1)" by (cases "stmt v") simp
    from stmt_frame [OF s] v show "fst (ListActive (Chat m) topic v) =
                Inr (query_active (Chat m) topic (items (db w')))"
      by (simp add: ListActive_def s)
  qed
  from 1 2 3 sorted_query_active [of "Chat m" topic "items (db w')"]
    set_query_active [of "Chat m" topic "items (db w')"]
  show ?thesis by blast
qed

lemma milk_message_sel:
  "Chat milk_message = 1" "MsgText milk_message = '' milk''" "Command milk_message = None"
  by (simp_all add: milk_message_def)

lemma TrimSpace_milk: "TrimSpace '' milk'' = ''milk''"
  by (simp add: space_defs)

lemma isTopicButtonText_milk: "isTopicButtonText '' milk'' = ([], False)"
  by (simp add: isTopicButtonText_def Let_def space_defs byte_add_def utf8_def char_eval)

lemma small_world_sel:
  "items (db small_world) = [task_row, basket_row]" "kv (db small_world) = Map.empty"
  "seq (db small_world) = 2" "sent small_world = []" "faults small_world = []"
  by (simp_all add: small_world_def)

lemma touch_fresh: "Topic (fst (touchState 5 1 fresh_app)) = TopicBasket"
  by (simp add: touchState_def fresh_app_def Let_def)

lemma AddItem_small:
  "AddItem 1 TopicBasket ''milk'' 7 small_world =
     (Inr 3, small_world\<lparr>db := (db small_world)
        \<lparr>items := [task_row, basket_row,
                    \<lparr>c_id = 3, c_chat_id = 1, c_topic = TopicBasket, c_text = ''milk'',
                      c_status = StatusActive, c_created_at = 0\<rparr>],
         seq := 3\<rparr>\<rparr>)"
proof -
  have "max_id [task_row, basket_row] = 2"
    by (simp add: max_id_def task_row_def basket_row_def)
  then show ?thesis
    by (simp add: AddItem_def stmt_def small_world_sel Let_def maxInt64_def to_second_def)
qed

lemma milk_facts:
  "snd (isTopicButtonText (MsgText milk_message)) = False"
  "TrimSpace (MsgText milk_message) \<noteq> []"
  by (simp_all add: milk_message_sel isTopicButtonText_milk TrimSpace_milk)

theorem captured_text_is_listed_witness:
  "items (db (snd (handleMessage ''1'' 5 7 milk_message (fresh_app, small_world)))) =
     [task_row, basket_row,
      \<lparr>c_id = 3, c_chat_id = 1, c_topic = TopicBasket, c_text = ''milk'',
        c_status = StatusActive, c_created_at = 0\<rparr>] \<and>
   query_active 1 TopicBasket
     (items (db (snd (handleMessage ''1'' 5 7 milk_message (fresh_app, small_world))))) =
     [scan basket_row,
      \<lparr>ID = 3, ChatID = 1, ItemTopic = TopicBasket, Text = ''milk'', CreatedAt = 0\<rparr>]"
proof -
  have q: "query_active 1 TopicBasket [task_row, basket_row] = [scan basket_row]"
    by (simp add: query_active_def selected_def task_row_def basket_row_def topic_defs)
  have tp: "TopicBasket = Topic (fst (touchState 5 (Chat milk_message) fresh_app))"
    by (simp add: milk_message_sel touch_fresh)
  have add: "fst (AddItem (Chat milk_message) TopicBasket (TrimSpace (MsgText milk_message)) 7
                (ensureChatID ''1'' (Chat milk_message) small_world)) = Inr 3"
    by (simp add: milk_message_sel TrimSpace_milk ensureChatID_def TrimSpace_one AddItem_small)
  note th = captured_text_is_listed [OF milk_message_sel(3) milk_facts tp add refl]
  from th [THEN conjunct1]
  have 1: "items (db (snd (handleMessage ''1'' 5 7 milk_message (fresh_app, small_world)))) =
     [task_row, basket_row,
      \<lparr>c_id = 3, c_chat_id = 1, c_topic = TopicBasket, c_text = ''milk'',
        c_status = StatusActive, c_created_at = 0\<rparr>]"
    by (simp add: milk_message_sel TrimSpace_milk small_world_sel to_second_def)
  from th [THEN conjunct2, THEN conjunct1]
  have 2: "query_active 1 TopicBasket
     (items (db (snd (handleMessage ''1'' 5 7 milk_message (fresh_app, small_world))))) =
     [scan basket_row,
      \<lparr>ID = 3, ChatID = 1, ItemTopic = TopicBasket, Text = ''milk'', CreatedAt = 0\<rparr>]"
    by (simp add: milk_message_sel TrimSpace_milk small_world_sel q to_second_def)
  from 1 2 show ?thesis by (rule conjI)
qed

text \<open>
  C9, as the claim words it (the text is stored unchanged), fails on a text with white
  space around it: \<open>handleMessage\<close> stores \<open>strings.TrimSpace(m.Text)\<close>.
\<close>

theorem captured_text_is_trimmed:
  "c_text (last (items (db (snd (handleMessage ''1'' 5 7 milk_message
                                   (fresh_app, small_world)))))) = ''milk'' \<and>
   c_text (last (items (db (snd (handleMessage ''1'' 5 7 milk_message
                                   (fresh_app, small_world)))))) \<noteq> MsgText milk_message"
  by (simp add: handleMessage_text [OF milk_message_sel(3) milk_facts] milk_message_sel
        TrimSpace_milk ensureChatID_def TrimSpace_one touchState_def fresh_app_def Let_def
        AddItem_small send_def Send_def)

end
